theory Spec2Isabelle
  imports Main "HOL-Library.Sublist" "HOL-Library.Word"
begin

section \<open>Python values\<close>

text \<open>
  The payload of an event and the parameters of an action are Python values as
  \<^verbatim>\<open>json.loads\<close> produces them: \<^verbatim>\<open>None\<close>, booleans, integers, floats, strings,
  lists and dictionaries with string keys. A dictionary is an association list in
  insertion order; a float is kept as the 64 bits of its IEEE-754 double, of which the
  program only ever asks whether it is zero. A \<^typ>\<open>string\<close> is the UTF-8 encoding
  of the Python string, byte by byte (a lone surrogate as its three bytes): an ASCII
  character is one \<^typ>\<open>char\<close>, any other character a leading byte and the
  continuation bytes after it. Equality, concatenation, the search for an ASCII text
  and the cut at an ASCII character are the same on the bytes as on the characters;
  where Python counts characters (a slice, the iteration of \<^verbatim>\<open>join\<close> over a
  string), the model counts them too, with \<open>utf8_chars\<close> below.
\<close>

datatype pyval =
    PNone
  | PBool bool
  | PInt int
  | PFloat "64 word"
  | PStr string
  | PList "pyval list"
  | PDict "(string \<times> pyval) list"

type_synonym pydict = "(string \<times> pyval) list"

text \<open>
  The exceptions the modelled code can raise: the error of \<^verbatim>\<open>json.loads\<close> on a
  text that is not JSON, the \<^verbatim>\<open>TypeError\<close> of a dictionary lookup whose key is a
  list or a dictionary, the \<^verbatim>\<open>TypeError\<close> of \<^verbatim>\<open>', '.join(x)\<close> for an
  \<open>x\<close> that is not an iterable of strings, and the exception of a \<^verbatim>\<open>print\<close>
  whose text the console does not take (\<^verbatim>\<open>UnicodeEncodeError\<close> for a text the
  encoding of the console cannot write, \<^verbatim>\<open>OSError\<close> for a closed one).
\<close>

datatype py_error =
    JSONDecodeError
  | TypeError_unhashable
  | TypeError_join pyval
  | PrintError string

text \<open>
  The functions of the Python runtime that the program calls and that are not part of
  the repository: \<^verbatim>\<open>json.loads\<close> (\<open>None\<close> when it raises),
  \<^verbatim>\<open>json.dumps\<close>, \<^verbatim>\<open>repr\<close> of a float, a list or a dictionary,
  \<^verbatim>\<open>str.lower\<close>, and \<^verbatim>\<open>str(e)\<close> of an exception. Every function below
  that calls one of them takes the runtime as its parameter \<open>L\<close>.
\<close>

record pylib =
  json_loads :: "string \<Rightarrow> pyval option"
  json_dumps :: "pyval \<Rightarrow> string"
  py_repr :: "pyval \<Rightarrow> string"
  str_lower :: "string \<Rightarrow> string"
  exc_str :: "py_error \<Rightarrow> string"

text \<open>
  The characters of a string: each is a byte that is no continuation byte, with the
  continuation bytes (\<open>0x80\<close> to \<open>0xBF\<close>) that follow it. \<open>str_take n s\<close> is the
  slice \<^verbatim>\<open>s[:n]\<close>, the first \<open>n\<close> characters.
\<close>

definition is_continuation :: "char \<Rightarrow> bool" where
  "is_continuation c = (128 \<le> (of_char c :: nat) \<and> (of_char c :: nat) < 192)"

function utf8_chars :: "string \<Rightarrow> string list" where
  "utf8_chars [] = []"
| "utf8_chars (c # cs) =
     (c # takeWhile is_continuation cs) # utf8_chars (dropWhile is_continuation cs)"
  by pat_completeness auto
termination
  by (relation "measure length") (auto simp: length_dropWhile_le less_Suc_eq_le)

definition str_take :: "nat \<Rightarrow> string \<Rightarrow> string" where
  "str_take n s = concat (take n (utf8_chars s))"

text \<open>\<^verbatim>\<open>str(n)\<close> of an integer: decimal digits, with a minus sign when negative.\<close>

definition digit_char :: "nat \<Rightarrow> char" where
  "digit_char d = char_of (48 + d)"

function str_nat :: "nat \<Rightarrow> string" where
  "str_nat n = (if n < 10 then [digit_char n] else str_nat (n div 10) @ [digit_char (n mod 10)])"
  by pat_completeness auto
termination
  by (relation "measure id") auto

declare str_nat.simps [simp del]

definition str_int :: "int \<Rightarrow> string" where
  "str_int i = (if i < 0 then CHR ''-'' # str_nat (nat (- i)) else str_nat (nat i))"

text \<open>
  \<^verbatim>\<open>str(v)\<close>, which is also what an f-string inserts for \<^verbatim>\<open>{v}\<close>: a string
  is itself, the other values are their \<^verbatim>\<open>repr\<close>.
\<close>

definition py_str :: "pylib \<Rightarrow> pyval \<Rightarrow> string" where
  "py_str L v =
     (case v of
        PStr s \<Rightarrow> s
      | PNone \<Rightarrow> ''None''
      | PBool b \<Rightarrow> (if b then ''True'' else ''False'')
      | PInt i \<Rightarrow> str_int i
      | _ \<Rightarrow> py_repr L v)"

text \<open>Truth value of a Python value, as \<^verbatim>\<open>if v\<close> and \<^verbatim>\<open>a or b\<close> test it.\<close>

definition py_truthy :: "pyval \<Rightarrow> bool" where
  "py_truthy v =
     (case v of
        PNone \<Rightarrow> False
      | PBool b \<Rightarrow> b
      | PInt i \<Rightarrow> i \<noteq> 0
      | PFloat w \<Rightarrow> w \<noteq> 0 \<and> w \<noteq> 0x8000000000000000
      | PStr s \<Rightarrow> s \<noteq> []
      | PList xs \<Rightarrow> xs \<noteq> []
      | PDict kvs \<Rightarrow> kvs \<noteq> [])"

definition py_or :: "pyval \<Rightarrow> pyval \<Rightarrow> pyval" where
  "py_or a b = (if py_truthy a then a else b)"

text \<open>\<^verbatim>\<open>d.get(k, default)\<close> and \<^verbatim>\<open>d.get(k)\<close>.\<close>

definition dict_get :: "pydict \<Rightarrow> string \<Rightarrow> pyval \<Rightarrow> pyval" where
  "dict_get d k dflt = (case map_of d k of None \<Rightarrow> dflt | Some v \<Rightarrow> v)"

definition dict_get_none :: "pydict \<Rightarrow> string \<Rightarrow> pyval" where
  "dict_get_none d k = dict_get d k PNone"

text \<open>A list or a dictionary cannot be the key of a dictionary lookup.\<close>

definition py_hashable :: "pyval \<Rightarrow> bool" where
  "py_hashable v = (case v of PList xs \<Rightarrow> False | PDict kvs \<Rightarrow> False | _ \<Rightarrow> True)"

text \<open>
  \<^verbatim>\<open>k in s\<close> on strings is \<^term>\<open>sublist k s\<close>: \<open>s\<close> is \<open>pre @ k @ post\<close>
  for some \<open>pre\<close> and \<open>post\<close>.
\<close>

section \<open>The planner (planner.py)\<close>

datatype ActionType =
    CREATE_TASK
  | NOTIFY
  | ESCALATE
  | SCHEDULE
  | MONITOR
  | BLOCK_DEPLOYMENT
  | AGGREGATE
  | AUTO_FIX
  | REQUEST_REVIEW

fun ActionType_value :: "ActionType \<Rightarrow> string" where
  "ActionType_value CREATE_TASK = ''create_task''"
| "ActionType_value NOTIFY = ''notify''"
| "ActionType_value ESCALATE = ''escalate''"
| "ActionType_value SCHEDULE = ''schedule''"
| "ActionType_value MONITOR = ''monitor''"
| "ActionType_value BLOCK_DEPLOYMENT = ''block_deployment''"
| "ActionType_value AGGREGATE = ''aggregate''"
| "ActionType_value AUTO_FIX = ''auto_fix''"
| "ActionType_value REQUEST_REVIEW = ''request_review''"

text \<open>
  The dataclass \<^verbatim>\<open>Action(type, priority, params, reasoning)\<close>; the fields carry
  the prefix \<open>a_\<close> because \<open>priority\<close> is also the planner's argument.
\<close>

record Action =
  a_type :: ActionType
  a_priority :: string
  a_params :: pydict
  a_reasoning :: string

text \<open>One entry of the rule table of \<^verbatim>\<open>_initialize_rules\<close>.\<close>

record rule =
  priority_threshold :: int
  actions :: "string list"
  escalation_condition :: "int \<Rightarrow> bool"

definition initialize_rules :: "(string \<times> rule) list" where
  "initialize_rules =
     [(''error'',
         \<lparr>priority_threshold = 7, actions = [''create_task'', ''notify''],
          escalation_condition = (\<lambda>count. count \<ge> 3)\<rparr>),
      (''security_alert'',
         \<lparr>priority_threshold = 0,
          actions = [''create_task'', ''notify'', ''block_deployment''],
          escalation_condition = (\<lambda>count. True)\<rparr>),
      (''test_failure'',
         \<lparr>priority_threshold = 6, actions = [''create_task''],
          escalation_condition = (\<lambda>count. count \<ge> 5)\<rparr>),
      (''deployment'',
         \<lparr>priority_threshold = 5, actions = [''monitor'', ''create_task''],
          escalation_condition = (\<lambda>count. False)\<rparr>),
      (''code_review'',
         \<lparr>priority_threshold = 6, actions = [''schedule''],
          escalation_condition = (\<lambda>count. count \<ge> 10)\<rparr>)]"

text \<open>\<^verbatim>\<open>self.action_rules.get(event_type)\<close>.\<close>

definition action_rules :: "string \<Rightarrow> rule option" where
  "action_rules event_type = map_of initialize_rules event_type"

definition determine_assignee :: "string \<Rightarrow> pydict \<Rightarrow> string" where
  "determine_assignee event_type event_data =
     (if event_type = ''security_alert'' then ''security_team''
      else if event_type = ''deployment'' then ''devops_team''
      else if sublist ''test'' event_type then ''qa_team''
      else ''oncall_engineer'')"

definition priority_map :: "int \<Rightarrow> string" where
  "priority_map priority =
     (if priority = 10 then ''critical''
      else if priority = 9 then ''critical''
      else if priority = 8 then ''high''
      else if priority = 7 then ''high''
      else if priority = 6 then ''medium''
      else if priority = 5 then ''medium''
      else ''low'')"

definition title_map :: "pylib \<Rightarrow> string \<Rightarrow> pydict \<Rightarrow> string" where
  "title_map L event_type event_data =
     (if event_type = ''error'' then
        ''Fix: '' @ py_str L (dict_get event_data ''message'' (PStr ''Unknown error''))
      else if event_type = ''test_failure'' then
        ''Test failed: '' @ py_str L (dict_get event_data ''test_name'' (PStr ''unknown''))
      else if event_type = ''security_alert'' then
        ''Security: '' @ py_str L (dict_get event_data ''alert_type'' (PStr ''unknown''))
      else if event_type = ''deployment'' then
        ''Verify deployment: '' @ py_str L (dict_get event_data ''service'' (PStr ''unknown''))
      else ''Handle '' @ event_type)"

definition plan_task_creation :: "pylib \<Rightarrow> string \<Rightarrow> pydict \<Rightarrow> int \<Rightarrow> Action" where
  "plan_task_creation L event_type event_data priority =
     \<lparr>a_type = CREATE_TASK,
      a_priority = priority_map priority,
      a_params =
        [(''title'', PStr (title_map L event_type event_data)),
         (''description'', PStr (json_dumps L (PDict event_data))),
         (''labels'', PList [PStr event_type, PStr ''automated'']),
         (''assignee'', PStr (determine_assignee event_type event_data))],
      a_reasoning = ''Event priority '' @ str_int priority @ '' requires task tracking''\<rparr>"

text \<open>
  The three message prefixes of \<^verbatim>\<open>_format_notification_message\<close> are non-ASCII
  glyphs in the source file; they are given here byte by byte.
\<close>

definition glyph_security :: string where
  "glyph_security =
     [CHR 0xC3, CHR 0xB0, CHR 0xC5, CHR 0xB8, CHR 0xC5, CHR 0xA1, CHR 0xC2, CHR 0xA8]"

definition glyph_error :: string where
  "glyph_error = [CHR 0xC3, CHR 0xA2, CHR 0xC5, CHR 0x92]"

definition glyph_warning :: string where
  "glyph_warning =
     [CHR 0xC3, CHR 0xA2, CHR 0xC5, CHR 0xA1, CHR 0xC2, CHR 0xA0, CHR 0xC3, CHR 0xAF,
      CHR 0xC2, CHR 0xB8]"

definition format_notification_message :: "pylib \<Rightarrow> string \<Rightarrow> pydict \<Rightarrow> string" where
  "format_notification_message L event_type event_data =
     (if event_type = ''security_alert'' then
        glyph_security @ '' Security Alert: '' @ py_str L (dict_get_none event_data ''alert_type'')
          @ '' - '' @ py_str L (dict_get_none event_data ''details'')
      else if event_type = ''error'' then
        glyph_error @ '' Error: '' @ py_str L (dict_get_none event_data ''message'')
          @ '' in '' @ py_str L (dict_get_none event_data ''service'')
      else
        glyph_warning @ '' '' @ event_type @ '': '' @ str_take 100 (json_dumps L (PDict event_data)))"

definition plan_notification :: "pylib \<Rightarrow> string \<Rightarrow> pydict \<Rightarrow> int \<Rightarrow> Action" where
  "plan_notification L event_type event_data priority =
     \<lparr>a_type = NOTIFY,
      a_priority = (if priority \<ge> 8 then ''high'' else ''medium''),
      a_params =
        [(''channel'',
            PStr (if event_type = ''security_alert'' then ''security''
                  else if event_type = ''error'' then
                    (if priority \<ge> 9 then ''urgent'' else ''alerts'')
                  else if event_type = ''deployment'' then ''deployments''
                  else ''general'')),
         (''message'', PStr (format_notification_message L event_type event_data)),
         (''mention'', (if priority \<ge> 9 then PStr ''oncall'' else PNone))],
      a_reasoning =
        ''High priority event ('' @ str_int priority @ '') requires immediate notification''\<rparr>"

definition plan_escalation :: "string \<Rightarrow> pydict \<Rightarrow> int \<Rightarrow> Action" where
  "plan_escalation event_type event_data event_count =
     \<lparr>a_type = ESCALATE,
      a_priority = ''high'',
      a_params =
        [(''reason'',
            PStr (''Repeated '' @ event_type @ '' detected ('' @ str_int event_count
                    @ '' occurrences)'')),
         (''escalate_to'', PStr ''engineering_manager''),
         (''include_data'', PBool True)],
      a_reasoning = ''Event count '' @ str_int event_count @ '' exceeds threshold''\<rparr>"

definition plan_scheduling :: "string \<Rightarrow> pydict \<Rightarrow> Action" where
  "plan_scheduling event_type event_data =
     \<lparr>a_type = SCHEDULE,
      a_priority = ''medium'',
      a_params =
        [(''activity'', PStr event_type),
         (''resource_id'',
            py_or (dict_get_none event_data ''pr_id'') (dict_get_none event_data ''issue_id'')),
         (''time_slot'', PStr ''next_available''),
         (''duration'', PStr ''30m'')],
      a_reasoning = ''Scheduling required for code review workflow''\<rparr>"

definition plan_monitoring :: "string \<Rightarrow> pydict \<Rightarrow> Action" where
  "plan_monitoring event_type event_data =
     \<lparr>a_type = MONITOR,
      a_priority = ''medium'',
      a_params =
        [(''target'', dict_get event_data ''service'' (PStr ''unknown'')),
         (''metrics'', PList [PStr ''error_rate'', PStr ''latency'', PStr ''cpu'', PStr ''memory'']),
         (''duration'', PStr ''30m''),
         (''alert_threshold'', PStr ''high'')],
      a_reasoning = ''Post-deployment monitoring required''\<rparr>"

definition plan_deployment_block :: "pylib \<Rightarrow> string \<Rightarrow> pydict \<Rightarrow> Action" where
  "plan_deployment_block L event_type event_data =
     \<lparr>a_type = BLOCK_DEPLOYMENT,
      a_priority = ''critical'',
      a_params =
        [(''reason'',
            PStr (''Security alert: '' @ py_str L (dict_get_none event_data ''alert_type''))),
         (''affected_services'', dict_get event_data ''affected_services'' (PList [])),
         (''until_resolved'', PBool True)],
      a_reasoning = ''Security vulnerability requires deployment freeze''\<rparr>"

definition plan_aggregation :: "string \<Rightarrow> pydict \<Rightarrow> int \<Rightarrow> Action" where
  "plan_aggregation event_type event_data event_count =
     \<lparr>a_type = AGGREGATE,
      a_priority = ''medium'',
      a_params =
        [(''action'', PStr ''create_epic''),
         (''event_type'', PStr event_type),
         (''count'', PInt event_count),
         (''title'', PStr (''Recurring '' @ event_type @ '' pattern''))],
      a_reasoning =
        ''Multiple related events ('' @ str_int event_count @ '') suggest larger issue''\<rparr>"

definition identify_fix_type :: "pylib \<Rightarrow> pydict \<Rightarrow> string" where
  "identify_fix_type L event_data =
     (if sublist ''dependency'' (str_lower L (py_str L (PDict event_data))) then
        ''dependency_update''
      else if sublist ''config'' (str_lower L (py_str L (PDict event_data))) then
        ''config_correction''
      else ''generic_fix'')"

definition plan_auto_fix :: "pylib \<Rightarrow> string \<Rightarrow> pydict \<Rightarrow> Action" where
  "plan_auto_fix L event_type event_data =
     \<lparr>a_type = AUTO_FIX,
      a_priority = ''high'',
      a_params =
        [(''fix_type'', PStr (identify_fix_type L event_data)),
         (''automatic'', PBool True),
         (''create_pr'', PBool True)],
      a_reasoning = ''Known issue with automated fix available''\<rparr>"

text \<open>
  \<^verbatim>\<open>auto_fixable.get(issue_type, False)\<close>: the key is hashed first, so a list or a
  dictionary raises \<^verbatim>\<open>TypeError\<close>; the table holds three strings, each mapped to
  \<^verbatim>\<open>True\<close>.
\<close>

definition auto_fixable_get :: "pyval \<Rightarrow> py_error + bool" where
  "auto_fixable_get issue_type =
     (if \<not> py_hashable issue_type then Inl TypeError_unhashable
      else Inr (issue_type \<in> set [PStr ''dependency_vulnerability'', PStr ''formatting_error'',
                                   PStr ''configuration_drift'']))"

definition can_auto_fix :: "string \<Rightarrow> pydict \<Rightarrow> int \<Rightarrow> py_error + bool" where
  "can_auto_fix event_type event_data event_count =
     (let issue_type =
            py_or (dict_get_none event_data ''alert_type'') (dict_get_none event_data ''error_type'')
      in case auto_fixable_get issue_type of
           Inl e \<Rightarrow> Inl e
         | Inr fixable \<Rightarrow> Inr (fixable \<and> event_count \<ge> 2))"

definition default_plan :: "pylib \<Rightarrow> string \<Rightarrow> pydict \<Rightarrow> Action list" where
  "default_plan L event_type event_data =
     [\<lparr>a_type = CREATE_TASK,
       a_priority = ''low'',
       a_params =
         [(''title'', PStr (''Review '' @ event_type)),
          (''description'', PStr (json_dumps L (PDict event_data))),
          (''labels'', PList [PStr event_type, PStr ''automated'', PStr ''review''])],
       a_reasoning = ''Unrecognized event type - creating task for review''\<rparr>]"

text \<open>
  \<^verbatim>\<open>AutonomousPlanner.plan\<close>. The memory context is a dictionary with integer
  values; \<^verbatim>\<open>context.get('event_count', 1)\<close> reads the count. The only step that can
  raise is the table lookup of \<^verbatim>\<open>_can_auto_fix\<close>, and then no plan is returned.
\<close>

definition plan ::
  "pylib \<Rightarrow> string \<Rightarrow> pydict \<Rightarrow> int \<Rightarrow> (string \<rightharpoonup> int) \<Rightarrow> py_error + Action list" where
  "plan L event_type event_data priority context =
     (case action_rules event_type of
        None \<Rightarrow> Inr (default_plan L event_type event_data)
      | Some rules \<Rightarrow>
          if priority < priority_threshold rules then Inr []
          else
            let event_count = (case context ''event_count'' of None \<Rightarrow> 1 | Some c \<Rightarrow> c);
                core =
                  (if ''create_task'' \<in> set (actions rules)
                   then [plan_task_creation L event_type event_data priority] else [])
                  @ (if ''notify'' \<in> set (actions rules) \<and> priority \<ge> 8
                     then [plan_notification L event_type event_data priority] else [])
                  @ (if ''schedule'' \<in> set (actions rules)
                     then [plan_scheduling event_type event_data] else [])
                  @ (if ''monitor'' \<in> set (actions rules)
                     then [plan_monitoring event_type event_data] else [])
                  @ (if ''block_deployment'' \<in> set (actions rules)
                     then [plan_deployment_block L event_type event_data] else [])
                  @ (if escalation_condition rules event_count
                     then [plan_escalation event_type event_data event_count] else [])
                  @ (if event_count \<ge> 3 \<and> event_type \<in> set [''issue_created'', ''test_failure'']
                     then [plan_aggregation event_type event_data event_count] else [])
            in (case can_auto_fix event_type event_data event_count of
                  Inl e \<Rightarrow> Inl e
                | Inr fixable \<Rightarrow>
                    Inr (core @ (if fixable then [plan_auto_fix L event_type event_data] else []))))"

section \<open>The priority scorer (agent_simple.py, agent.py)\<close>

definition priority_table :: "(string \<times> int) list" where
  "priority_table =
     [(''error'', 10), (''security_alert'', 10), (''test_failure'', 8), (''deployment'', 7),
      (''code_review'', 6), (''commit'', 5), (''issue_created'', 4), (''file_change'', 3)]"

definition urgent_keywords :: "string list" where
  "urgent_keywords = [''critical'', ''urgent'', ''blocker'', ''security'']"

text \<open>
  The body the two versions of \<^verbatim>\<open>_calculate_priority\<close> share, from the table lookup
  on; \<open>data_dict\<close> is what the parsing step left.
\<close>

definition score :: "pylib \<Rightarrow> string \<Rightarrow> pyval \<Rightarrow> int" where
  "score L event_type data_dict =
     (let base_priority = (case map_of priority_table event_type of None \<Rightarrow> 5 | Some p \<Rightarrow> p)
      in if list_ex (\<lambda>keyword. sublist keyword (str_lower L (py_str L data_dict))) urgent_keywords
         then min 10 (base_priority + 3)
         else base_priority)"

text \<open>
  \<^verbatim>\<open>AgenticSystem._calculate_priority\<close> of agent_simple.py: a bare \<^verbatim>\<open>except\<close>
  around \<^verbatim>\<open>json.loads\<close> puts the empty dictionary in place of a payload that does
  not parse.
\<close>

definition calculate_priority :: "pylib \<Rightarrow> string \<Rightarrow> string \<Rightarrow> py_error + int" where
  "calculate_priority L event_type data =
     (let data_dict = (case json_loads L data of None \<Rightarrow> PDict [] | Some v \<Rightarrow> v)
      in Inr (score L event_type data_dict))"

text \<open>
  \<^verbatim>\<open>AgenticSystem._calculate_priority\<close> of agent.py: \<^verbatim>\<open>json.loads\<close> is called
  outside any \<^verbatim>\<open>try\<close>, so its exception leaves the function.
\<close>

definition agent_calculate_priority :: "pylib \<Rightarrow> string \<Rightarrow> string \<Rightarrow> py_error + int" where
  "agent_calculate_priority L event_type data =
     (case json_loads L data of
        None \<Rightarrow> Inl JSONDecodeError
      | Some data_dict \<Rightarrow> Inr (score L event_type data_dict))"

section \<open>The error signature (memory.py)\<close>

text \<open>
  The expression \<^verbatim>\<open>message.split(':')[0] if ':' in message else message[:50]\<close>;
  \<open>None\<close> when evaluating it, or joining its value, raises. Only a string has
  \<^verbatim>\<open>split\<close> and gives a string when sliced: a number, a boolean or \<^verbatim>\<open>None\<close>
  fails at \<^verbatim>\<open>in\<close>, a list or a dictionary at \<^verbatim>\<open>split\<close> or, sliced, at the
  \<^verbatim>\<open>join\<close> that follows.
\<close>

definition message_part :: "pyval \<Rightarrow> string option" where
  "message_part message =
     (case message of
        PStr m \<Rightarrow>
          Some (if CHR '':'' \<in> set m then takeWhile (\<lambda>c. c \<noteq> CHR '':'') m
                else str_take 50 m)
      | _ \<Rightarrow> None)"

text \<open>
  The body of the \<^verbatim>\<open>try\<close> of \<^verbatim>\<open>_extract_error_signature\<close> after the parsing:
  \<open>None\<close> when it raises, which a value without \<^verbatim>\<open>get\<close> (anything but a
  dictionary) does, and \<^verbatim>\<open>'::'.join\<close> of a service that is not a string.
\<close>

definition signature_parts :: "pyval \<Rightarrow> string option" where
  "signature_parts data_dict =
     (case data_dict of
        PDict d \<Rightarrow>
          (let message = dict_get d ''message'' (PStr []);
               service = dict_get d ''service'' (PStr ''unknown'')
           in case message_part message of
                None \<Rightarrow> None
              | Some part \<Rightarrow>
                  (case service of PStr sv \<Rightarrow> Some (sv @ ''::'' @ part) | _ \<Rightarrow> None))
      | _ \<Rightarrow> None)"

text \<open>\<^verbatim>\<open>AgentMemory._extract_error_signature\<close>: every exception gives \<^verbatim>\<open>'unknown'\<close>.\<close>

definition extract_error_signature :: "pylib \<Rightarrow> string \<Rightarrow> string" where
  "extract_error_signature L data =
     (case json_loads L data of
        None \<Rightarrow> ''unknown''
      | Some data_dict \<Rightarrow>
          (case signature_parts data_dict of None \<Rightarrow> ''unknown'' | Some s \<Rightarrow> s))"

section \<open>The executor (executor.py)\<close>

text \<open>
  What one call of \<^verbatim>\<open>execute\<close> meets in its environment: the clock in the handler
  and in \<^verbatim>\<open>_log_execution\<close> (\<^verbatim>\<open>datetime.now().isoformat()\<close>), the draws of
  \<^verbatim>\<open>random.randint(1000, 9999)\<close>, of which a handler makes at most two, and the
  console, which says for each text whether \<^verbatim>\<open>print\<close> raises on it.
\<close>

record env =
  now :: string
  log_now :: string
  rand_first :: int
  rand_second :: int
  print_fails :: "string \<Rightarrow> bool"

record log_entry =
  log_timestamp :: string
  log_action :: pydict
  log_result :: pydict
  log_status :: string

record executor =
  execution_log :: "log_entry list"
  task_counter :: nat
  notification_counter :: nat

definition init_executor :: executor where
  "init_executor = \<lparr>execution_log = [], task_counter = 0, notification_counter = 0\<rparr>"

text \<open>The format \<^verbatim>\<open>{n:04d}\<close> of a counter: at least four digits, padded with zeros.\<close>

definition format_04d :: "nat \<Rightarrow> string" where
  "format_04d n = replicate (4 - length (str_nat n)) (CHR ''0'') @ str_nat n"

fun join_strs :: "string \<Rightarrow> string list \<Rightarrow> string" where
  "join_strs sep [] = []"
| "join_strs sep [x] = x"
| "join_strs sep (x # y # ys) = x @ sep @ join_strs sep (y # ys)"

fun str_items :: "pyval list \<Rightarrow> string list option" where
  "str_items [] = Some []"
| "str_items (PStr s # vs) = (case str_items vs of None \<Rightarrow> None | Some ss \<Rightarrow> Some (s # ss))"
| "str_items (v # vs) = None"

text \<open>
  \<^verbatim>\<open>sep.join(x)\<close>: a string is joined character by character, a dictionary by its
  keys, a list when all its items are strings; everything else raises.
\<close>

definition py_join :: "string \<Rightarrow> pyval \<Rightarrow> py_error + string" where
  "py_join sep x =
     (case x of
        PStr s \<Rightarrow> Inr (join_strs sep (utf8_chars s))
      | PList xs \<Rightarrow>
          (case str_items xs of None \<Rightarrow> Inl (TypeError_join x) | Some ss \<Rightarrow> Inr (join_strs sep ss))
      | PDict kvs \<Rightarrow> Inr (join_strs sep (map fst kvs))
      | _ \<Rightarrow> Inl (TypeError_join x))"

text \<open>
  The \<^verbatim>\<open>print\<close> statements of a handler, in their order. Each builds its text, which
  can raise (\<open>Inl\<close>: the \<^verbatim>\<open>join\<close> in it did), and prints it, which the console can
  refuse; the first exception ends the handler. What is printed is not kept.
\<close>

fun print_lines :: "env \<Rightarrow> (py_error + string) list \<Rightarrow> py_error option" where
  "print_lines e [] = None"
| "print_lines e (Inl err # rest) = Some err"
| "print_lines e (Inr line # rest) =
     (if print_fails e line then Some (PrintError line) else print_lines e rest)"

text \<open>The text \<^verbatim>\<open>f"<label>{', '.join(x)}"\<close>.\<close>

definition joined_line :: "string \<Rightarrow> pyval \<Rightarrow> py_error + string" where
  "joined_line label x =
     (case py_join '', '' x of Inl err \<Rightarrow> Inl err | Inr joined \<Rightarrow> Inr (label @ joined))"

text \<open>The glyphs that open the first line of each handler, in UTF-8.\<close>

definition glyph_check :: string where
  "glyph_check = [CHR 0xE2, CHR 0x9C, CHR 0x93]"

definition glyph_loudspeaker :: string where
  "glyph_loudspeaker = [CHR 0xF0, CHR 0x9F, CHR 0x93, CHR 0xA2]"

definition glyph_up_arrow :: string where
  "glyph_up_arrow = [CHR 0xE2, CHR 0xAC, CHR 0x86, CHR 0xEF, CHR 0xB8, CHR 0x8F]"

definition glyph_calendar :: string where
  "glyph_calendar = [CHR 0xF0, CHR 0x9F, CHR 0x93, CHR 0x85]"

definition glyph_magnifier :: string where
  "glyph_magnifier = [CHR 0xF0, CHR 0x9F, CHR 0x94, CHR 0x8D]"

definition glyph_stop :: string where
  "glyph_stop = [CHR 0xF0, CHR 0x9F, CHR 0x9B, CHR 0x91]"

definition glyph_chart :: string where
  "glyph_chart = [CHR 0xF0, CHR 0x9F, CHR 0x93, CHR 0x8A]"

definition glyph_wrench :: string where
  "glyph_wrench = [CHR 0xF0, CHR 0x9F, CHR 0x94, CHR 0xA7]"

definition glyph_people :: string where
  "glyph_people = [CHR 0xF0, CHR 0x9F, CHR 0x91, CHR 0xA5]"

definition glyph_caution :: string where
  "glyph_caution = [CHR 0xE2, CHR 0x9A, CHR 0xA0, CHR 0xEF, CHR 0xB8, CHR 0x8F]"

text \<open>
  A handler gets the environment, the executor and the action, and gives the executor
  as it left it with either the exception it raised or its result.
\<close>

type_synonym handler = "env \<Rightarrow> executor \<Rightarrow> pydict \<Rightarrow> executor \<times> (py_error + pydict)"

definition execute_create_task :: "pylib \<Rightarrow> handler" where
  "execute_create_task L e ex action =
     (let ex' = ex\<lparr>task_counter := task_counter ex + 1\<rparr>;
          task_id = ''TASK-'' @ format_04d (task_counter ex');
          title = dict_get action ''title'' (PStr ''Untitled Task'');
          priority = dict_get action ''priority'' (PStr ''medium'');
          labels = dict_get action ''labels'' (PList []);
          assignee = dict_get action ''assignee'' (PStr ''unassigned'')
      in (ex',
          case print_lines e
                 [Inr (glyph_check @ '' Created Task: '' @ task_id),
                  Inr (''  Title: '' @ py_str L title),
                  Inr (''  Priority: '' @ py_str L priority),
                  Inr (''  Assignee: '' @ py_str L assignee),
                  joined_line ''  Labels: '' labels] of
            Some err \<Rightarrow> Inl err
          | None \<Rightarrow>
              Inr [(''status'', PStr ''success''),
                   (''task_id'', PStr task_id),
                   (''title'', title),
                   (''priority'', priority),
                   (''assignee'', assignee),
                   (''created_at'', PStr (now e))]))"

definition execute_notify :: "pylib \<Rightarrow> handler" where
  "execute_notify L e ex action =
     (let ex' = ex\<lparr>notification_counter := notification_counter ex + 1\<rparr>;
          channel = dict_get action ''channel'' (PStr ''general'');
          message = dict_get action ''message'' (PStr ''Notification'');
          mention = dict_get_none action ''mention''
      in (ex',
          case print_lines e
                 ([Inr (glyph_loudspeaker @ '' Notification sent to #'' @ py_str L channel),
                   Inr (''  Message: '' @ py_str L message)]
                  @ (if py_truthy mention then [Inr (''  Mentioned: @'' @ py_str L mention)]
                     else [])) of
            Some err \<Rightarrow> Inl err
          | None \<Rightarrow>
              Inr [(''status'', PStr ''success''),
                   (''channel'', channel),
                   (''message_id'', PStr (''MSG-'' @ format_04d (notification_counter ex'))),
                   (''delivered_at'', PStr (now e))]))"

definition execute_escalate :: "pylib \<Rightarrow> handler" where
  "execute_escalate L e ex action =
     (let reason = dict_get action ''reason'' (PStr ''Unknown'');
          escalate_to = dict_get action ''escalate_to'' (PStr ''manager'')
      in (ex,
          case print_lines e
                 [Inr (glyph_up_arrow @ ''  Escalated to '' @ py_str L escalate_to),
                  Inr (''  Reason: '' @ py_str L reason)] of
            Some err \<Rightarrow> Inl err
          | None \<Rightarrow>
              Inr [(''status'', PStr ''success''),
                   (''escalated_to'', escalate_to),
                   (''reason'', reason),
                   (''escalation_id'', PStr (''ESC-'' @ str_int (rand_first e))),
                   (''escalated_at'', PStr (now e))]))"

definition execute_schedule :: "pylib \<Rightarrow> handler" where
  "execute_schedule L e ex action =
     (let activity = dict_get action ''activity'' (PStr ''task'');
          resource_id = dict_get action ''resource_id'' (PStr ''unknown'');
          time_slot = dict_get action ''time_slot'' (PStr ''next_available'');
          duration = dict_get action ''duration'' (PStr ''30m'')
      in (ex,
          case print_lines e
                 [Inr (glyph_calendar @ '' Scheduled: '' @ py_str L activity),
                  Inr (''  Resource: '' @ py_str L resource_id),
                  Inr (''  Time slot: '' @ py_str L time_slot),
                  Inr (''  Duration: '' @ py_str L duration)] of
            Some err \<Rightarrow> Inl err
          | None \<Rightarrow>
              Inr [(''status'', PStr ''success''),
                   (''activity'', activity),
                   (''resource_id'', resource_id),
                   (''scheduled_time'', time_slot),
                   (''duration'', duration),
                   (''schedule_id'', PStr (''SCH-'' @ str_int (rand_first e)))]))"

definition execute_monitor :: "pylib \<Rightarrow> handler" where
  "execute_monitor L e ex action =
     (let target = dict_get action ''target'' (PStr ''unknown'');
          metrics = dict_get action ''metrics'' (PList []);
          duration = dict_get action ''duration'' (PStr ''30m'')
      in (ex,
          case print_lines e
                 [Inr (glyph_magnifier @ '' Started monitoring: '' @ py_str L target),
                  joined_line ''  Metrics: '' metrics,
                  Inr (''  Duration: '' @ py_str L duration)] of
            Some err \<Rightarrow> Inl err
          | None \<Rightarrow>
              Inr [(''status'', PStr ''success''),
                   (''target'', target),
                   (''metrics'', metrics),
                   (''duration'', duration),
                   (''monitor_id'', PStr (''MON-'' @ str_int (rand_first e))),
                   (''started_at'', PStr (now e))]))"

definition execute_block_deployment :: "pylib \<Rightarrow> handler" where
  "execute_block_deployment L e ex action =
     (let reason = dict_get action ''reason'' (PStr ''Unknown'');
          affected_services = dict_get action ''affected_services'' (PList [])
      in (ex,
          case print_lines e
                 [Inr (glyph_stop @ '' DEPLOYMENT BLOCKED''),
                  Inr (''  Reason: '' @ py_str L reason),
                  joined_line ''  Affected services: '' affected_services] of
            Some err \<Rightarrow> Inl err
          | None \<Rightarrow>
              Inr [(''status'', PStr ''success''),
                   (''blocked'', PBool True),
                   (''reason'', reason),
                   (''affected_services'', affected_services),
                   (''block_id'', PStr (''BLK-'' @ str_int (rand_first e))),
                   (''blocked_at'', PStr (now e))]))"

definition execute_aggregate :: "pylib \<Rightarrow> handler" where
  "execute_aggregate L e ex action =
     (let aggregate_action = dict_get action ''action'' (PStr ''group'');
          event_type = dict_get action ''event_type'' (PStr ''unknown'');
          count = dict_get action ''count'' (PInt 0)
      in (ex,
          case print_lines e
                 [Inr (glyph_chart @ '' Aggregated '' @ py_str L count @ '' ''
                         @ py_str L event_type @ '' events''),
                  Inr (''  Action: '' @ py_str L aggregate_action)] of
            Some err \<Rightarrow> Inl err
          | None \<Rightarrow>
              Inr [(''status'', PStr ''success''),
                   (''action'', aggregate_action),
                   (''event_type'', event_type),
                   (''count'', count),
                   (''aggregate_id'', PStr (''AGG-'' @ str_int (rand_first e)))]))"

text \<open>
  \<^verbatim>\<open>_execute_auto_fix\<close> draws the number of the pull request first, and only when
  \<^verbatim>\<open>create_pr\<close> is true; the number of the fix is the next draw.
\<close>

definition execute_auto_fix :: "pylib \<Rightarrow> handler" where
  "execute_auto_fix L e ex action =
     (let fix_type = dict_get action ''fix_type'' (PStr ''generic'');
          create_pr = dict_get action ''create_pr'' (PBool False);
          pr_id = ''PR-'' @ str_int (rand_first e)
      in (ex,
          case print_lines e
                 ([Inr (glyph_wrench @ '' Auto-fix executed: '' @ py_str L fix_type)]
                  @ (if py_truthy create_pr then [Inr (''  Created PR: '' @ pr_id)] else [])) of
            Some err \<Rightarrow> Inl err
          | None \<Rightarrow>
              Inr [(''status'', PStr ''success''),
                   (''fix_type'', fix_type),
                   (''pr_created'', create_pr),
                   (''pr_id'', (if py_truthy create_pr then PStr pr_id else PNone)),
                   (''fix_id'',
                      PStr (''FIX-'' @ str_int (if py_truthy create_pr then rand_second e
                                                 else rand_first e))),
                   (''fixed_at'', PStr (now e))]))"

definition execute_request_review :: "pylib \<Rightarrow> handler" where
  "execute_request_review L e ex action =
     (let resource_id = dict_get action ''resource_id'' (PStr ''unknown'');
          reviewers = dict_get action ''reviewers'' (PList [])
      in (ex,
          case print_lines e
                 [Inr (glyph_people @ '' Review requested for '' @ py_str L resource_id),
                  joined_line ''  Reviewers: '' reviewers] of
            Some err \<Rightarrow> Inl err
          | None \<Rightarrow>
              Inr [(''status'', PStr ''success''),
                   (''resource_id'', resource_id),
                   (''reviewers'', reviewers),
                   (''request_id'', PStr (''REV-'' @ str_int (rand_first e)))]))"

definition execute_unknown :: "pylib \<Rightarrow> handler" where
  "execute_unknown L e ex action =
     (let action_type = dict_get action ''type'' (PStr ''unknown'')
      in (ex,
          case print_lines e
                 [Inr (glyph_caution @ ''  Unknown action type: '' @ py_str L action_type)] of
            Some err \<Rightarrow> Inl err
          | None \<Rightarrow>
              Inr [(''status'', PStr ''skipped''),
                   (''reason'', PStr (''Unknown action type: '' @ py_str L action_type))]))"

definition log_execution :: "env \<Rightarrow> executor \<Rightarrow> pydict \<Rightarrow> pydict \<Rightarrow> string \<Rightarrow> executor" where
  "log_execution e ex action result status =
     ex\<lparr>execution_log :=
          execution_log ex
            @ [\<lparr>log_timestamp = log_now e, log_action = action, log_result = result,
                log_status = status\<rparr>]\<rparr>"

text \<open>The dispatch table \<^verbatim>\<open>executors\<close> of \<^verbatim>\<open>execute\<close>.\<close>

definition executors :: "pylib \<Rightarrow> (string \<times> handler) list" where
  "executors L =
     [(''create_task'', execute_create_task L),
      (''notify'', execute_notify L),
      (''escalate'', execute_escalate L),
      (''schedule'', execute_schedule L),
      (''monitor'', execute_monitor L),
      (''block_deployment'', execute_block_deployment L),
      (''aggregate'', execute_aggregate L),
      (''auto_fix'', execute_auto_fix L),
      (''request_review'', execute_request_review L)]"

text \<open>The nine kinds the dispatch table knows.\<close>

definition known_kinds :: "string list" where
  "known_kinds =
     [''create_task'', ''notify'', ''escalate'', ''schedule'', ''monitor'', ''block_deployment'',
      ''aggregate'', ''auto_fix'', ''request_review'']"

text \<open>
  \<^verbatim>\<open>executors.get(action_type, self._execute_unknown)\<close> for a key that can be
  hashed: only a string is equal to a key of the table.
\<close>

definition executors_get :: "pylib \<Rightarrow> pyval \<Rightarrow> handler" where
  "executors_get L action_type =
     (case action_type of
        PStr s \<Rightarrow> (case map_of (executors L) s of None \<Rightarrow> execute_unknown L | Some h \<Rightarrow> h)
      | _ \<Rightarrow> execute_unknown L)"

text \<open>
  \<^verbatim>\<open>ActionExecutor.execute\<close>. The lookup in the dispatch table stands before the
  \<^verbatim>\<open>try\<close>: its \<^verbatim>\<open>TypeError\<close> for a list or a dictionary as \<^verbatim>\<open>type\<close> leaves
  \<^verbatim>\<open>execute\<close> (\<open>Inl\<close>), with the executor as it was. What the handler raises is
  caught and becomes a \<^verbatim>\<open>failed\<close> result.
\<close>

definition execute :: "pylib \<Rightarrow> env \<Rightarrow> executor \<Rightarrow> pydict \<Rightarrow> py_error + (pydict \<times> executor)" where
  "execute L e ex action =
     (let action_type = dict_get_none action ''type''
      in if \<not> py_hashable action_type then Inl TypeError_unhashable
         else
           (case executors_get L action_type e ex action of
              (ex', Inr result) \<Rightarrow> Inr (result, log_execution e ex' action result ''success'')
            | (ex', Inl err) \<Rightarrow>
                (let error_result = [(''status'', PStr ''failed''), (''error'', PStr (exc_str L err))]
                 in Inr (error_result, log_execution e ex' action error_result ''failed''))))"

record stats =
  total_executions :: int
  successful :: int
  failed :: int
  tasks_created :: int
  notifications_sent :: int

definition get_execution_stats :: "executor \<Rightarrow> stats" where
  "get_execution_stats ex =
     (let total = int (length (execution_log ex));
          successful = int (length (filter (\<lambda>log. log_status log = ''success'') (execution_log ex)));
          failed = total - successful
      in \<lparr>total_executions = total, successful = successful, failed = failed,
          tasks_created = int (task_counter ex),
          notifications_sent = int (notification_counter ex)\<rparr>)"

section \<open>Runs of the executor\<close>

text \<open>
  A run is a list of calls of \<^verbatim>\<open>execute\<close> on one executor, each with the
  environment it reads and its action. A call whose exception leaves \<^verbatim>\<open>execute\<close>
  has changed nothing, and the caller goes on with the executor as it was.
\<close>

definition step :: "pylib \<Rightarrow> executor \<Rightarrow> env \<times> pydict \<Rightarrow> executor" where
  "step L ex call =
     (case execute L (fst call) ex (snd call) of Inl err \<Rightarrow> ex | Inr (result, ex') \<Rightarrow> ex')"

fun run :: "pylib \<Rightarrow> executor \<Rightarrow> (env \<times> pydict) list \<Rightarrow> executor" where
  "run L ex [] = ex"
| "run L ex (call # calls) = run L (step L ex call) calls"

text \<open>
  What the handler of a call did: \<open>None\<close> when no handler ran (the lookup in the
  dispatch table raised), else what the handler raised or returned.
\<close>

definition handler_outcome :: "pylib \<Rightarrow> executor \<Rightarrow> env \<times> pydict \<Rightarrow> (py_error + pydict) option" where
  "handler_outcome L ex call =
     (let action_type = dict_get_none (snd call) ''type''
      in if \<not> py_hashable action_type then None
         else Some (snd (executors_get L action_type (fst call) ex (snd call))))"

definition handler_returned :: "pylib \<Rightarrow> executor \<Rightarrow> env \<times> pydict \<Rightarrow> bool" where
  "handler_returned L ex call =
     (case handler_outcome L ex call of Some (Inr result) \<Rightarrow> True | _ \<Rightarrow> False)"

definition handler_raised :: "pylib \<Rightarrow> executor \<Rightarrow> env \<times> pydict \<Rightarrow> bool" where
  "handler_raised L ex call =
     (case handler_outcome L ex call of Some (Inl err) \<Rightarrow> True | _ \<Rightarrow> False)"

text \<open>The calls of a run whose handler returned, and those whose handler raised.\<close>

fun returned_calls :: "pylib \<Rightarrow> executor \<Rightarrow> (env \<times> pydict) list \<Rightarrow> nat" where
  "returned_calls L ex [] = 0"
| "returned_calls L ex (call # calls) =
     (if handler_returned L ex call then 1 else 0) + returned_calls L (step L ex call) calls"

fun raised_calls :: "pylib \<Rightarrow> executor \<Rightarrow> (env \<times> pydict) list \<Rightarrow> nat" where
  "raised_calls L ex [] = 0"
| "raised_calls L ex (call # calls) =
     (if handler_raised L ex call then 1 else 0) + raised_calls L (step L ex call) calls"

text \<open>The entries of the log with status \<^verbatim>\<open>success\<close>, as \<^verbatim>\<open>get_execution_stats\<close> counts them.\<close>

definition successes :: "executor \<Rightarrow> nat" where
  "successes ex = length (filter (\<lambda>log. log_status log = ''success'') (execution_log ex))"

section \<open>A sample runtime\<close>

text \<open>
  The theorems below hold for every runtime \<open>L\<close>. To run the model on closed inputs
  a runtime is needed; this one knows three texts, \<^verbatim>\<open>{}\<close>, \<^verbatim>\<open>[]\<close> and one error
  payload, which it parses and prints as Python does, and rejects every other text.
  What it answers for other values (the empty dictionary's text) is used nowhere. The
  console of the sample environment takes every text but one that holds the lone
  surrogate U+D800, which no UTF-8 console can write.
\<close>

definition sample_payload_text :: string where
  \<open>sample_payload_text =
     ''{"service": "api-gateway", "message": "Timeout: upstream did not answer"}''\<close>

definition sample_payload :: pyval where
  "sample_payload =
     PDict [(''service'', PStr ''api-gateway''),
            (''message'', PStr ''Timeout: upstream did not answer'')]"

definition lone_surrogate :: string where
  "lone_surrogate = [CHR 0xED, CHR 0xA0, CHR 0x80]"

definition sample_runtime :: pylib where
  "sample_runtime =
     \<lparr>json_loads =
        [''{}'' \<mapsto> PDict [], ''[]'' \<mapsto> PList [], sample_payload_text \<mapsto> sample_payload],
      json_dumps =
        (\<lambda>v. if v = PList [] then ''[]''
             else if v = sample_payload then sample_payload_text else ''{}''),
      py_repr = (\<lambda>v. if v = PList [] then ''[]'' else ''{}''),
      str_lower = id,
      exc_str = (\<lambda>err. ''exception'')\<rparr>"

definition sample_env :: env where
  "sample_env =
     \<lparr>now = ''2024-01-01T00:00:00'', log_now = ''2024-01-01T00:00:01'',
      rand_first = 1000, rand_second = 9999,
      print_fails = (\<lambda>line. sublist lone_surrogate line)\<rparr>"

text \<open>
  Five calls: a task is created; an action of a kind the executor does not know is
  skipped; the monitor handler raises on metrics that are a number; the handler of an
  unknown kind raises when it prints a kind the console cannot write; and the lookup
  of a kind that is a list raises before any handler runs.
\<close>

definition sample_calls :: "(env \<times> pydict) list" where
  "sample_calls =
     [(sample_env, [(''type'', PStr ''create_task''), (''title'', PStr ''Test Task'')]),
      (sample_env, [(''type'', PStr ''teleport'')]),
      (sample_env, [(''type'', PStr ''monitor''), (''metrics'', PInt 5)]),
      (sample_env, [(''type'', PStr lone_surrogate)]),
      (sample_env, [(''type'', PList [PStr ''create_task''])])]"

section \<open>Properties of the planner\<close>

lemmas planner_defs =
  plan_def action_rules_def initialize_rules_def can_auto_fix_def auto_fixable_get_def Let_def

lemmas payload_defs =
  py_or_def py_truthy_def dict_get_none_def dict_get_def py_hashable_def

text \<open>
  C1. The claim: for \<^verbatim>\<open>issue_created\<close> with a count of at least 3 the plan holds an
  aggregate action proposing an epic. The code does not do this: \<^verbatim>\<open>issue_created\<close>
  has no entry in the rule table, so \<^verbatim>\<open>plan\<close> returns the default plan before it
  reaches the aggregation test that names \<^verbatim>\<open>issue_created\<close>. For every payload,
  priority and context the plan is the single review task, and no action of it is an
  aggregate.
\<close>

theorem plan_issue_created_is_default:
  "plan L ''issue_created'' event_data priority context
     = Inr (default_plan L ''issue_created'' event_data)
   \<and> map a_type (default_plan L ''issue_created'' event_data) = [CREATE_TASK]
   \<and> AGGREGATE \<notin> set (map a_type (default_plan L ''issue_created'' event_data))"
  by (simp add: plan_def action_rules_def initialize_rules_def default_plan_def)

text \<open>
  C2. The security alert with payload
  \<^verbatim>\<open>{alert_type: 'dependency_vulnerability', details: 'CVE-2024-1234'}\<close>, priority 10
  and count 1: the plan is returned, and its actions are, in this order, create_task,
  notify, block_deployment and escalate.
\<close>

theorem plan_security_alert_scenario:
  "\<exists>acts.
     plan L ''security_alert''
       [(''alert_type'', PStr ''dependency_vulnerability''), (''details'', PStr ''CVE-2024-1234'')]
       10 (context(''event_count'' \<mapsto> 1)) = Inr acts
     \<and> map a_type acts = [CREATE_TASK, NOTIFY, BLOCK_DEPLOYMENT, ESCALATE]"
  by (simp add: planner_defs payload_defs plan_task_creation_def plan_notification_def
      plan_deployment_block_def plan_escalation_def)

text \<open>
  What holds of the claim C3: for an error event of priority 10 whose payload gives
  the auto-fix lookup a key that can be hashed, the plan with count 3 is returned and
  holds an escalate action directed at \<^verbatim>\<open>engineering_manager\<close>, and the plan with
  count 2 is returned and holds no escalate action.
\<close>

lemma plan_error_escalation:
  assumes "py_hashable (py_or (dict_get_none event_data ''alert_type'')
                              (dict_get_none event_data ''error_type''))"
  shows "\<exists>acts3 acts2.
           plan L ''error'' event_data 10 (context(''event_count'' \<mapsto> 3)) = Inr acts3
         \<and> (\<exists>a \<in> set acts3. a_type a = ESCALATE
                \<and> map_of (a_params a) ''escalate_to'' = Some (PStr ''engineering_manager''))
         \<and> plan L ''error'' event_data 10 (context(''event_count'' \<mapsto> 2)) = Inr acts2
         \<and> ESCALATE \<notin> set (map a_type acts2)"
  using assms
  by (auto simp: planner_defs plan_task_creation_def plan_notification_def
      plan_escalation_def plan_auto_fix_def)

text \<open>
  C3. The claim: for an error event of priority 10, the plan with count 3 holds an
  escalate action. The code breaks it on the payload \<^verbatim>\<open>{'alert_type': ['x']}\<close>:
  the escalate action is appended, then the lookup \<^verbatim>\<open>auto_fixable.get(issue_type,
  False)\<close> of \<^verbatim>\<open>_can_auto_fix\<close> raises \<^verbatim>\<open>TypeError\<close> on the list, and \<^verbatim>\<open>plan\<close>
  returns no plan at all, for every runtime and every context with count 3.
\<close>

theorem plan_error_unhashable_alert_raises:
  "plan L ''error'' [(''alert_type'', PList [PStr ''x''])] 10 (context(''event_count'' \<mapsto> 3))
     = Inl TypeError_unhashable"
  by (simp add: planner_defs payload_defs)

text \<open>
  C4. For every event type with an entry in the rule table, every priority strictly
  below the entry's threshold, and any payload and memory context, the plan is the
  empty list.
\<close>

theorem plan_below_threshold_empty:
  assumes "action_rules event_type = Some rules"
    and "priority < priority_threshold rules"
  shows "plan L event_type event_data priority context = Inr []"
  using assms by (simp add: plan_def)

theorem plan_below_threshold_empty_witness:
  "action_rules ''error''
     = Some \<lparr>priority_threshold = 7, actions = [''create_task'', ''notify''],
             escalation_condition = (\<lambda>count. count \<ge> 3)\<rparr>
   \<and> (6::int) < priority_threshold
         \<lparr>priority_threshold = 7, actions = [''create_task'', ''notify''],
          escalation_condition = (\<lambda>count. count \<ge> 3)\<rparr>
   \<and> plan sample_runtime ''error'' [(''message'', PStr ''Database connection timeout'')] 6
        [''event_count'' \<mapsto> 5] = Inr []"
proof -
  have r: "action_rules ''error''
     = Some \<lparr>priority_threshold = 7, actions = [''create_task'', ''notify''],
             escalation_condition = (\<lambda>count. count \<ge> 3)\<rparr>"
    by (simp add: action_rules_def initialize_rules_def)
  have t: "(6::int) < priority_threshold
         \<lparr>priority_threshold = 7, actions = [''create_task'', ''notify''],
          escalation_condition = (\<lambda>count. count \<ge> 3)\<rparr>"
    by simp
  from plan_below_threshold_empty [OF r t] r t show ?thesis by simp
qed

text \<open>
  C5. The error event with payload \<^verbatim>\<open>{message: 'Database connection timeout',
  severity: 'critical', service: 'api-gateway'}\<close>, priority 10 and count 1: the plan is
  returned; it holds a create_task action of severity \<^verbatim>\<open>critical\<close> assigned to
  \<^verbatim>\<open>oncall_engineer\<close> and a notify action on channel \<^verbatim>\<open>urgent\<close> mentioning
  \<^verbatim>\<open>oncall\<close>, and no escalate action (these two are all its actions).
\<close>

theorem plan_error_scenario:
  "\<exists>acts.
     plan L ''error''
       [(''message'', PStr ''Database connection timeout''), (''severity'', PStr ''critical''),
        (''service'', PStr ''api-gateway'')]
       10 (context(''event_count'' \<mapsto> 1)) = Inr acts
     \<and> (\<exists>a \<in> set acts. a_type a = CREATE_TASK \<and> a_priority a = ''critical''
            \<and> map_of (a_params a) ''assignee'' = Some (PStr ''oncall_engineer''))
     \<and> (\<exists>a \<in> set acts. a_type a = NOTIFY
            \<and> map_of (a_params a) ''channel'' = Some (PStr ''urgent'')
            \<and> map_of (a_params a) ''mention'' = Some (PStr ''oncall''))
     \<and> ESCALATE \<notin> set (map a_type acts)
     \<and> map a_type acts = [CREATE_TASK, NOTIFY]"
  by (simp add: planner_defs payload_defs plan_task_creation_def plan_notification_def
      priority_map_def determine_assignee_def sublist_Cons_right)

section \<open>Properties of the priority scorer\<close>

lemma list_ex_sublist:
  "list_ex (\<lambda>k. sublist k s) ks \<longleftrightarrow> (\<exists>k \<in> set ks. \<exists>pre post. s = pre @ k @ post)"
  by (simp add: list_ex_iff sublist_def)

lemma base_priority_cases:
  "(case map_of priority_table et of None \<Rightarrow> 5 | Some p \<Rightarrow> p) =
     (if et = ''error'' then 10 else if et = ''security_alert'' then 10
      else if et = ''test_failure'' then 8 else if et = ''deployment'' then 7
      else if et = ''code_review'' then 6 else if et = ''commit'' then 5
      else if et = ''issue_created'' then 4 else if et = ''file_change'' then 3
      else (5::int))"
  by (simp add: priority_table_def)

lemma base_priority_range:
  "0 \<le> (case map_of priority_table et of None \<Rightarrow> 5 | Some p \<Rightarrow> p)
   \<and> (case map_of priority_table et of None \<Rightarrow> (5::int) | Some p \<Rightarrow> p) \<le> 10"
  by (simp add: priority_table_def)

lemma score_range: "0 \<le> score L et d \<and> score L et d \<le> 10"
  using base_priority_range [of et] by (auto simp: score_def Let_def)

text \<open>
  C6. For every event type and every payload text the scorer of agent_simple.py
  returns an integer between 0 and 10. With \<open>payload\<close> the parsed text (the empty
  dictionary when the text does not parse) and \<open>base\<close> the table value of the type
  (5 for a type not in the table), the score is \<open>min 10 (base + 3)\<close> when the
  lower-cased \<^verbatim>\<open>str(payload)\<close> contains one of the four keywords, and \<open>base\<close>
  otherwise.
\<close>

theorem calculate_priority_value:
  fixes L event_type data
  defines "payload \<equiv> (case json_loads L data of None \<Rightarrow> PDict [] | Some v \<Rightarrow> v)"
  defines "base \<equiv>
     (if event_type = ''error'' then 10 else if event_type = ''security_alert'' then 10
      else if event_type = ''test_failure'' then 8 else if event_type = ''deployment'' then 7
      else if event_type = ''code_review'' then 6 else if event_type = ''commit'' then 5
      else if event_type = ''issue_created'' then 4 else if event_type = ''file_change'' then 3
      else (5::int))"
  defines "hit \<equiv>
     (\<exists>keyword \<in> {''critical'', ''urgent'', ''blocker'', ''security''}.
        \<exists>pre post. str_lower L (py_str L payload) = pre @ keyword @ post)"
  shows "\<exists>n. calculate_priority L event_type data = Inr n
             \<and> 0 \<le> n \<and> n \<le> 10
             \<and> n = (if hit then min 10 (base + 3) else base)"
proof -
  have b: "(case map_of priority_table event_type of None \<Rightarrow> 5 | Some p \<Rightarrow> p) = base"
    unfolding base_def by (rule base_priority_cases)
  have h: "list_ex (\<lambda>keyword. sublist keyword (str_lower L (py_str L payload))) urgent_keywords
             = hit"
    unfolding hit_def by (simp add: list_ex_sublist urgent_keywords_def)
  have v: "score L event_type payload = (if hit then min 10 (base + 3) else base)"
    by (simp only: score_def Let_def b h)
  have c: "calculate_priority L event_type data = Inr (score L event_type payload)"
    by (simp add: calculate_priority_def payload_def)
  from c v score_range [of L event_type payload] show ?thesis by metis
qed

text \<open>
  The scorer of agent_simple.py gives a text that does not parse the score of the
  empty payload of the same type.
\<close>

lemma calculate_priority_unparsable_as_empty:
  assumes "json_loads L data = None" and "json_loads L blank = Some (PDict [])"
  shows "calculate_priority L event_type data = calculate_priority L event_type blank"
  using assms by (simp add: calculate_priority_def)

text \<open>
  C7. The claim: the scorer returns a value for every payload text, a text that does
  not parse counting as the empty mapping. The scorer of agent_simple.py does so, the
  scorer of agent.py does not: on a text that \<^verbatim>\<open>json.loads\<close> rejects it raises, where
  its sibling returns the score of the empty payload.
\<close>

theorem agent_calculate_priority_raises:
  assumes "json_loads L data = None"
  shows "agent_calculate_priority L event_type data = Inl JSONDecodeError
         \<and> calculate_priority L event_type data = Inr (score L event_type (PDict []))"
  using assms by (simp add: agent_calculate_priority_def calculate_priority_def)

theorem agent_calculate_priority_raises_witness:
  "json_loads sample_runtime ''not json'' = None
   \<and> agent_calculate_priority sample_runtime ''error'' ''not json'' = Inl JSONDecodeError
   \<and> calculate_priority sample_runtime ''error'' ''not json'' = Inr 10"
proof -
  have h: "json_loads sample_runtime ''not json'' = None"
    by (simp add: sample_runtime_def sample_payload_text_def)
  have s: "score sample_runtime ''error'' (PDict []) = 10"
    by (simp add: score_def priority_table_def urgent_keywords_def py_str_def
        sample_runtime_def sublist_Cons_right)
  from agent_calculate_priority_raises [OF h, of "''error''"] h s show ?thesis by simp
qed

section \<open>Properties of the error signature\<close>

lemma takeWhile_colon:
  assumes "CHR '':'' \<in> set m"
  shows "\<exists>rest. m = takeWhile (\<lambda>c. c \<noteq> CHR '':'') m @ CHR '':'' # rest"
proof -
  have split: "m = takeWhile (\<lambda>c. c \<noteq> CHR '':'') m @ dropWhile (\<lambda>c. c \<noteq> CHR '':'') m"
    by simp
  from assms have "dropWhile (\<lambda>c. c \<noteq> CHR '':'') m \<noteq> []"
    by (simp add: dropWhile_eq_Nil_conv)
  then obtain y ys where d: "dropWhile (\<lambda>c. c \<noteq> CHR '':'') m = y # ys"
    by (cases "dropWhile (\<lambda>c. c \<noteq> CHR '':'') m") auto
  then have "y = CHR '':''"
    using hd_dropWhile [of "\<lambda>c. c \<noteq> CHR '':''" m] by auto
  with split d show ?thesis by metis
qed

lemma concat_utf8_chars: "concat (utf8_chars s) = s"
  by (induction s rule: utf8_chars.induct) simp_all

lemma utf8_chars_ascii:
  assumes "\<forall>c \<in> set s. \<not> is_continuation c"
  shows "utf8_chars s = map (\<lambda>c. [c]) s"
  using assms
proof (induction s)
  case Nil
  show ?case by simp
next
  case (Cons c cs)
  then have "takeWhile is_continuation cs = [] \<and> dropWhile is_continuation cs = cs"
    by (cases cs) auto
  with Cons show ?case by simp
qed

text \<open>On a text without continuation bytes, so on ASCII text, the slice is \<open>take\<close>.\<close>

lemma str_take_ascii:
  assumes "\<forall>c \<in> set s. \<not> is_continuation c"
  shows "str_take n s = take n s"
proof -
  have "concat (take n (map (\<lambda>c. [c]) s)) = take n s"
    by (induction s arbitrary: n) (auto simp: take_Cons split: nat.splits)
  with utf8_chars_ascii [OF assms] show ?thesis by (simp add: str_take_def)
qed

text \<open>
  A message of 51 characters of three bytes each (U+65E5) and no colon: its part is
  the first 50 characters, 150 bytes.
\<close>

lemma message_part_counts_characters:
  "message_part (PStr (concat (replicate 51 [CHR 0xE6, CHR 0x97, CHR 0xA5])))
     = Some (concat (replicate 50 [CHR 0xE6, CHR 0x97, CHR 0xA5]))"
  by code_simp

lemma takeWhile_no_colon: "CHR '':'' \<notin> set (takeWhile (\<lambda>c. c \<noteq> CHR '':'') m)"
  by (auto dest: set_takeWhileD)

text \<open>
  C9, as amended. A payload text that does not parse has the signature
  \<^verbatim>\<open>unknown\<close>. A text that parses to a dictionary whose \<^verbatim>\<open>message\<close> (default: the
  empty string) and \<^verbatim>\<open>service\<close> (default \<^verbatim>\<open>unknown\<close>) are strings has the
  signature \<^verbatim>\<open>service::part\<close>, where \<open>part\<close> is the message up to its first colon,
  or its first 50 characters (\<open>utf8_chars\<close>) when it has no colon. Every other text that parses (to a
  value that is no dictionary, or with a message or a service that is no string) has
  the signature \<^verbatim>\<open>unknown\<close> too.
\<close>

theorem extract_error_signature_cases:
  "(json_loads L data = None \<longrightarrow> extract_error_signature L data = ''unknown'')
   \<and> (\<forall>d m sv.
         json_loads L data = Some (PDict d)
         \<and> dict_get d ''message'' (PStr []) = PStr m
         \<and> dict_get d ''service'' (PStr ''unknown'') = PStr sv
         \<longrightarrow> (CHR '':'' \<in> set m \<longrightarrow>
                (\<exists>part rest. m = part @ CHR '':'' # rest \<and> CHR '':'' \<notin> set part
                   \<and> extract_error_signature L data = sv @ ''::'' @ part))
           \<and> (CHR '':'' \<notin> set m \<longrightarrow>
                extract_error_signature L data = sv @ ''::'' @ concat (take 50 (utf8_chars m))))
   \<and> (\<forall>v. json_loads L data = Some v
         \<and> \<not> (\<exists>d m sv. v = PDict d \<and> dict_get d ''message'' (PStr []) = PStr m
                      \<and> dict_get d ''service'' (PStr ''unknown'') = PStr sv)
         \<longrightarrow> extract_error_signature L data = ''unknown'')"
proof (intro conjI allI impI)
  assume "json_loads L data = None"
  then show "extract_error_signature L data = ''unknown''"
    by (simp add: extract_error_signature_def)
next
  fix d m sv
  assume a: "json_loads L data = Some (PDict d) \<and> dict_get d ''message'' (PStr []) = PStr m
         \<and> dict_get d ''service'' (PStr ''unknown'') = PStr sv"
  assume c: "CHR '':'' \<in> set m"
  from a c have s:
    "extract_error_signature L data = sv @ ''::'' @ takeWhile (\<lambda>c. c \<noteq> CHR '':'') m"
    by (simp add: extract_error_signature_def signature_parts_def message_part_def Let_def)
  from takeWhile_colon [OF c]
  obtain rest where "m = takeWhile (\<lambda>c. c \<noteq> CHR '':'') m @ CHR '':'' # rest" ..
  with s takeWhile_no_colon [of m]
  show "\<exists>part rest. m = part @ CHR '':'' # rest \<and> CHR '':'' \<notin> set part
                   \<and> extract_error_signature L data = sv @ ''::'' @ part"
    by blast
next
  fix d m sv
  assume a: "json_loads L data = Some (PDict d) \<and> dict_get d ''message'' (PStr []) = PStr m
         \<and> dict_get d ''service'' (PStr ''unknown'') = PStr sv"
  assume c: "CHR '':'' \<notin> set m"
  from a c show "extract_error_signature L data = sv @ ''::'' @ concat (take 50 (utf8_chars m))"
    by (simp add: extract_error_signature_def signature_parts_def message_part_def Let_def
        str_take_def)
next
  fix v
  assume a: "json_loads L data = Some v
         \<and> \<not> (\<exists>d m sv. v = PDict d \<and> dict_get d ''message'' (PStr []) = PStr m
                      \<and> dict_get d ''service'' (PStr ''unknown'') = PStr sv)"
  then show "extract_error_signature L data = ''unknown''"
    by (auto simp: extract_error_signature_def signature_parts_def message_part_def Let_def
        split: pyval.splits option.splits)
qed

theorem extract_error_signature_cases_witness:
  "json_loads sample_runtime ''not json'' = None
   \<and> extract_error_signature sample_runtime ''not json'' = ''unknown''
   \<and> json_loads sample_runtime sample_payload_text = Some sample_payload
   \<and> (\<exists>part rest. ''Timeout: upstream did not answer'' = part @ CHR '':'' # rest
         \<and> CHR '':'' \<notin> set part
         \<and> extract_error_signature sample_runtime sample_payload_text
             = ''api-gateway'' @ ''::'' @ part)
   \<and> extract_error_signature sample_runtime sample_payload_text = ''api-gateway::Timeout''
   \<and> json_loads sample_runtime ''{}'' = Some (PDict [])
   \<and> extract_error_signature sample_runtime ''{}'' = ''unknown::''
   \<and> json_loads sample_runtime ''[]'' = Some (PList [])
   \<and> extract_error_signature sample_runtime ''[]'' = ''unknown''"
proof -
  have p1: "json_loads sample_runtime ''not json'' = None"
    by (simp add: sample_runtime_def sample_payload_text_def)
  have p2: "json_loads sample_runtime sample_payload_text = Some (PDict
      [(''service'', PStr ''api-gateway''),
       (''message'', PStr ''Timeout: upstream did not answer'')])"
    by (simp add: sample_runtime_def sample_payload_def)
  have p3: "json_loads sample_runtime ''{}'' = Some (PDict [])"
    by (simp add: sample_runtime_def sample_payload_text_def)
  have p4: "json_loads sample_runtime ''[]'' = Some (PList [])"
    by (simp add: sample_runtime_def sample_payload_text_def)
  from extract_error_signature_cases [of sample_runtime "''not json''"] p1
  have c1: "extract_error_signature sample_runtime ''not json'' = ''unknown''"
    by blast
  have "dict_get [(''service'', PStr ''api-gateway''),
                  (''message'', PStr ''Timeout: upstream did not answer'')]
          ''message'' (PStr []) = PStr ''Timeout: upstream did not answer''
      \<and> dict_get [(''service'', PStr ''api-gateway''),
                  (''message'', PStr ''Timeout: upstream did not answer'')]
          ''service'' (PStr ''unknown'') = PStr ''api-gateway''
      \<and> CHR '':'' \<in> set ''Timeout: upstream did not answer''"
    by (simp add: dict_get_def)
  with extract_error_signature_cases [of sample_runtime sample_payload_text] p2
  have c2: "\<exists>part rest. ''Timeout: upstream did not answer'' = part @ CHR '':'' # rest
         \<and> CHR '':'' \<notin> set part
         \<and> extract_error_signature sample_runtime sample_payload_text
             = ''api-gateway'' @ ''::'' @ part"
    by blast
  have c2': "extract_error_signature sample_runtime sample_payload_text = ''api-gateway::Timeout''"
    using p2 by (simp add: extract_error_signature_def signature_parts_def message_part_def
        dict_get_def)
  have "dict_get [] ''message'' (PStr []) = PStr []
      \<and> dict_get [] ''service'' (PStr ''unknown'') = PStr ''unknown''
      \<and> CHR '':'' \<notin> set []"
    by (simp add: dict_get_def)
  with extract_error_signature_cases [of sample_runtime "''{}''"] p3
  have c3: "extract_error_signature sample_runtime ''{}''
               = ''unknown'' @ ''::'' @ concat (take 50 (utf8_chars []))"
    by blast
  have "\<not> (\<exists>d m sv. PList [] = PDict d \<and> dict_get d ''message'' (PStr []) = PStr m
                      \<and> dict_get d ''service'' (PStr ''unknown'') = PStr sv)"
    by simp
  with extract_error_signature_cases [of sample_runtime "''[]''"] p4
  have c4: "extract_error_signature sample_runtime ''[]'' = ''unknown''"
    by blast
  from p1 c1 p2 c2 c2' p3 c3 p4 c4 show ?thesis
    by (simp add: sample_payload_def)
qed

text \<open>
  The claim as stated fails on the text \<^verbatim>\<open>[]\<close>: it parses, and its signature is
  \<^verbatim>\<open>unknown\<close>, the value the claim keeps for texts that do not parse; no service
  and no message part stand in it around a \<^verbatim>\<open>::\<close>.
\<close>

theorem extract_error_signature_counterexample:
  "json_loads sample_runtime ''[]'' = Some (PList [])
   \<and> extract_error_signature sample_runtime ''[]'' = ''unknown''
   \<and> \<not> sublist ''::'' (extract_error_signature sample_runtime ''[]'')"
  by (simp add: sample_runtime_def sample_payload_text_def extract_error_signature_def
      signature_parts_def sublist_Cons_right)

section \<open>Properties of the executor\<close>

lemmas handler_defs =
  execute_create_task_def execute_notify_def execute_escalate_def execute_schedule_def
  execute_monitor_def execute_block_deployment_def execute_aggregate_def
  execute_auto_fix_def execute_request_review_def execute_unknown_def

lemma executors_get_cases:
  "executors_get L t \<in> {execute_create_task L, execute_notify L, execute_escalate L,
     execute_schedule L, execute_monitor L, execute_block_deployment L, execute_aggregate L,
     execute_auto_fix L, execute_request_review L, execute_unknown L}"
  by (simp add: executors_get_def executors_def split: pyval.splits)

lemma handler_keeps_log:
  "execution_log (fst (executors_get L t e ex action)) = execution_log ex"
  using executors_get_cases [of L t]
  by (auto simp: handler_defs Let_def)

lemma executors_get_unknown:
  assumes "t \<notin> PStr ` set known_kinds"
  shows "executors_get L t = execute_unknown L"
  using assms
  by (auto simp: executors_get_def executors_def known_kinds_def split: pyval.splits)

text \<open>
  What holds of the claim C8: \<^verbatim>\<open>execute\<close> raises exactly when the \<^verbatim>\<open>type\<close> of
  the action cannot be hashed. Otherwise a kind outside the dispatch table gives a
  \<^verbatim>\<open>skipped\<close> result when the console takes the line its handler prints and a
  \<^verbatim>\<open>failed\<close> result when it does not, and every handler that raises gives a
  \<^verbatim>\<open>failed\<close> result with the text of the exception.
\<close>

lemma execute_raises_iff:
  "(\<exists>err. execute L e ex action = Inl err) \<longleftrightarrow> \<not> py_hashable (dict_get_none action ''type'')"
  by (auto simp: execute_def Let_def split: prod.splits sum.splits)

lemma execute_unknown_skipped:
  assumes "py_hashable (dict_get_none action ''type'')"
    and "dict_get_none action ''type'' \<notin> PStr ` set known_kinds"
    and "\<not> print_fails e (glyph_caution @ ''  Unknown action type: ''
                             @ py_str L (dict_get action ''type'' (PStr ''unknown'')))"
  shows "\<exists>result ex'. execute L e ex action = Inr (result, ex')
           \<and> map_of result ''status'' = Some (PStr ''skipped'')"
  using assms by (simp add: execute_def Let_def executors_get_unknown execute_unknown_def)

lemma execute_unknown_print_fails:
  assumes "py_hashable (dict_get_none action ''type'')"
    and "dict_get_none action ''type'' \<notin> PStr ` set known_kinds"
    and "print_fails e (glyph_caution @ ''  Unknown action type: ''
                          @ py_str L (dict_get action ''type'' (PStr ''unknown'')))"
  shows "\<exists>result ex'. execute L e ex action = Inr (result, ex')
           \<and> map_of result ''status'' = Some (PStr ''failed'')"
  using assms by (simp add: execute_def Let_def executors_get_unknown execute_unknown_def)

lemma execute_handler_raised_failed:
  assumes "handler_outcome L ex (e, action) = Some (Inl err)"
  shows "\<exists>ex'. execute L e ex action
           = Inr ([(''status'', PStr ''failed''), (''error'', PStr (exc_str L err))], ex')"
  using assms
  by (auto simp: execute_def handler_outcome_def Let_def split: if_splits prod.splits sum.splits)

text \<open>
  C8. The claim: no exception leaves \<^verbatim>\<open>execute\<close>, and an action of a kind that is
  not one of the nine known kinds gets a \<^verbatim>\<open>skipped\<close> result. The code breaks it on
  the action \<^verbatim>\<open>{'type': ['create_task']}\<close>: its kind is none of the nine, and the
  lookup in the dispatch table, which stands before the \<^verbatim>\<open>try\<close>, raises
  \<^verbatim>\<open>TypeError\<close>, for every executor and environment.
\<close>

theorem execute_unhashable_type_raises:
  "execute L e ex [(''type'', PList [PStr ''create_task''])] = Inl TypeError_unhashable"
  by (simp add: execute_def dict_get_none_def dict_get_def py_hashable_def)

lemma step_propagated:
  assumes "handler_outcome L ex call = None"
  shows "step L ex call = ex"
  using assms
  by (auto simp: step_def execute_def handler_outcome_def Let_def split: if_splits)

lemma step_returned:
  assumes "handler_outcome L ex call = Some (Inr result)"
  shows "length (execution_log (step L ex call)) = Suc (length (execution_log ex))
         \<and> successes (step L ex call) = Suc (successes ex)"
  using assms handler_keeps_log [of L "dict_get_none (snd call) ''type''" "fst call" ex "snd call"]
  by (auto simp: step_def execute_def handler_outcome_def Let_def log_execution_def successes_def
      split: if_splits prod.splits sum.splits)

lemma step_raised:
  assumes "handler_outcome L ex call = Some (Inl err)"
  shows "length (execution_log (step L ex call)) = Suc (length (execution_log ex))
         \<and> successes (step L ex call) = successes ex"
  using assms handler_keeps_log [of L "dict_get_none (snd call) ''type''" "fst call" ex "snd call"]
  by (auto simp: step_def execute_def handler_outcome_def Let_def log_execution_def successes_def
      split: if_splits prod.splits sum.splits)

lemma step_counts:
  "successes (step L ex call) = successes ex + (if handler_returned L ex call then 1 else 0)
   \<and> length (execution_log (step L ex call))
       = length (execution_log ex) + (if handler_returned L ex call then 1 else 0)
         + (if handler_raised L ex call then 1 else 0)"
proof (cases "handler_outcome L ex call")
  case None
  then show ?thesis
    by (simp add: step_propagated handler_returned_def handler_raised_def)
next
  case (Some out)
  show ?thesis
  proof (cases out)
    case (Inl err)
    with Some step_raised [of L ex call err] show ?thesis
      by (simp add: handler_returned_def handler_raised_def)
  next
    case (Inr result)
    with Some step_returned [of L ex call result] show ?thesis
      by (simp add: handler_returned_def handler_raised_def)
  qed
qed

lemma run_counts:
  "successes (run L ex calls) = successes ex + returned_calls L ex calls
   \<and> length (execution_log (run L ex calls))
       = length (execution_log ex) + returned_calls L ex calls + raised_calls L ex calls"
proof (induction calls arbitrary: ex)
  case Nil
  show ?case by simp
next
  case (Cons call calls)
  from Cons.IH [of "step L ex call"] step_counts [of L ex call]
  show ?case by simp
qed

text \<open>
  C10. After any run of \<^verbatim>\<open>execute\<close> calls on a new executor, the statistics satisfy
  \<open>total_executions = successful + failed\<close>; \<open>successful\<close> is the number of calls
  whose handler returned without raising, and \<open>failed\<close> the number of calls whose
  handler raised (in its \<^verbatim>\<open>join\<close> or in a \<^verbatim>\<open>print\<close>). A call with a kind outside
  the dispatch table whose handler returned has a \<^verbatim>\<open>skipped\<close> result, and it adds one
  to \<open>successful\<close> and nothing to \<open>failed\<close>.
\<close>

theorem execution_stats_after_run:
  "total_executions (get_execution_stats (run L init_executor calls))
     = successful (get_execution_stats (run L init_executor calls))
       + failed (get_execution_stats (run L init_executor calls))
   \<and> successful (get_execution_stats (run L init_executor calls))
       = int (returned_calls L init_executor calls)
   \<and> failed (get_execution_stats (run L init_executor calls))
       = int (raised_calls L init_executor calls)
   \<and> (\<forall>e ex action.
         dict_get_none action ''type'' \<notin> PStr ` set known_kinds
         \<and> handler_returned L ex (e, action)
         \<longrightarrow> (\<exists>result.
                execute L e ex action = Inr (result, step L ex (e, action))
                \<and> map_of result ''status'' = Some (PStr ''skipped'')
                \<and> successful (get_execution_stats (step L ex (e, action)))
                    = successful (get_execution_stats ex) + 1
                \<and> failed (get_execution_stats (step L ex (e, action)))
                    = failed (get_execution_stats ex)))"
proof (intro conjI allI impI)
  show "total_executions (get_execution_stats (run L init_executor calls))
     = successful (get_execution_stats (run L init_executor calls))
       + failed (get_execution_stats (run L init_executor calls))"
    by (simp add: get_execution_stats_def Let_def)
next
  from run_counts [of L init_executor calls]
  show "successful (get_execution_stats (run L init_executor calls))
       = int (returned_calls L init_executor calls)"
    by (simp add: get_execution_stats_def Let_def successes_def init_executor_def)
next
  from run_counts [of L init_executor calls]
  show "failed (get_execution_stats (run L init_executor calls))
       = int (raised_calls L init_executor calls)"
    by (simp add: get_execution_stats_def Let_def successes_def init_executor_def)
next
  fix e ex action
  assume a: "dict_get_none action ''type'' \<notin> PStr ` set known_kinds
         \<and> handler_returned L ex (e, action)"
  then have u: "executors_get L (dict_get_none action ''type'') = execute_unknown L"
    by (simp add: executors_get_unknown)
  from a have r: "handler_returned L ex (e, action)" by simp
  then have nr: "\<not> handler_raised L ex (e, action)"
    by (auto simp: handler_returned_def handler_raised_def split: option.splits sum.splits)
  from r u have x: "\<exists>result. execute L e ex action = Inr (result, step L ex (e, action))
                \<and> map_of result ''status'' = Some (PStr ''skipped'')"
    by (auto simp: handler_returned_def handler_outcome_def step_def execute_def
        execute_unknown_def Let_def split: if_splits option.splits)
  from step_counts [of L ex "(e, action)"] r nr
  have c: "successful (get_execution_stats (step L ex (e, action)))
                    = successful (get_execution_stats ex) + 1
                \<and> failed (get_execution_stats (step L ex (e, action)))
                    = failed (get_execution_stats ex)"
    by (simp add: get_execution_stats_def Let_def successes_def)
  from x c
  show "\<exists>result.
                execute L e ex action = Inr (result, step L ex (e, action))
                \<and> map_of result ''status'' = Some (PStr ''skipped'')
                \<and> successful (get_execution_stats (step L ex (e, action)))
                    = successful (get_execution_stats ex) + 1
                \<and> failed (get_execution_stats (step L ex (e, action)))
                    = failed (get_execution_stats ex)"
    by blast
qed

theorem execution_stats_after_run_witness:
  "dict_get_none [(''type'', PStr ''teleport'')] ''type'' \<notin> PStr ` set known_kinds
   \<and> handler_returned sample_runtime init_executor (sample_env, [(''type'', PStr ''teleport'')])
   \<and> returned_calls sample_runtime init_executor sample_calls = 2
   \<and> raised_calls sample_runtime init_executor sample_calls = 2
   \<and> total_executions (get_execution_stats (run sample_runtime init_executor sample_calls)) = 4
   \<and> successful (get_execution_stats (run sample_runtime init_executor sample_calls)) = 2
   \<and> failed (get_execution_stats (run sample_runtime init_executor sample_calls)) = 2
   \<and> (\<exists>result.
         execute sample_runtime sample_env init_executor [(''type'', PStr ''teleport'')]
           = Inr (result,
                  step sample_runtime init_executor (sample_env, [(''type'', PStr ''teleport'')]))
         \<and> map_of result ''status'' = Some (PStr ''skipped'')
         \<and> successful (get_execution_stats
               (step sample_runtime init_executor (sample_env, [(''type'', PStr ''teleport'')])))
             = successful (get_execution_stats init_executor) + 1
         \<and> failed (get_execution_stats
               (step sample_runtime init_executor (sample_env, [(''type'', PStr ''teleport'')])))
             = failed (get_execution_stats init_executor))"
proof -
  have h: "dict_get_none [(''type'', PStr ''teleport'')] ''type'' \<notin> PStr ` set known_kinds
      \<and> handler_returned sample_runtime init_executor (sample_env, [(''type'', PStr ''teleport'')])"
    by code_simp
  have r: "returned_calls sample_runtime init_executor sample_calls = 2"
    by code_simp
  have f: "raised_calls sample_runtime init_executor sample_calls = 2"
    by code_simp
  note t = execution_stats_after_run [of sample_runtime sample_calls]
  from t r f
  have s: "total_executions (get_execution_stats (run sample_runtime init_executor sample_calls)) = 4
   \<and> successful (get_execution_stats (run sample_runtime init_executor sample_calls)) = 2
   \<and> failed (get_execution_stats (run sample_runtime init_executor sample_calls)) = 2"
    by simp
  from t h have u: "\<exists>result.
         execute sample_runtime sample_env init_executor [(''type'', PStr ''teleport'')]
           = Inr (result,
                  step sample_runtime init_executor (sample_env, [(''type'', PStr ''teleport'')]))
         \<and> map_of result ''status'' = Some (PStr ''skipped'')
         \<and> successful (get_execution_stats
               (step sample_runtime init_executor (sample_env, [(''type'', PStr ''teleport'')])))
             = successful (get_execution_stats init_executor) + 1
         \<and> failed (get_execution_stats
               (step sample_runtime init_executor (sample_env, [(''type'', PStr ''teleport'')])))
             = failed (get_execution_stats init_executor)"
    by blast
  from h r f s u show ?thesis by blast
qed

text \<open>
  The fourth call of the sample run has an unknown kind that the console cannot write:
  its handler raises in \<^verbatim>\<open>print\<close>, the result is \<^verbatim>\<open>failed\<close>, and the call counts
  as failed.
\<close>

lemma execute_unknown_unprintable:
  "\<exists>ex'. execute sample_runtime sample_env init_executor [(''type'', PStr lone_surrogate)]
           = Inr ([(''status'', PStr ''failed''), (''error'', PStr ''exception'')], ex')"
  by (simp add: execute_def executors_get_def executors_def execute_unknown_def
      dict_get_none_def dict_get_def py_hashable_def py_str_def sample_runtime_def
      sample_env_def lone_surrogate_def glyph_caution_def sublist_Cons_right sublist_append Let_def)

end
